theory Spec2Isabelle
  imports Complex_Main
begin

section \<open>Data model of the customer dashboard\<close>

text \<open>
  The development embeds \<^verbatim>\<open>src/CustomerDashboard.tsx\<close>: the two price functions
  (\<^verbatim>\<open>getEstimatedPrice\<close> of the dashboard, \<^verbatim>\<open>getDeliveryPrice\<close> of the restaurant
  menu), the cart operations of the restaurant menu, the road-distance effect, and the two
  handlers that write to the order document (\<^verbatim>\<open>handleAcceptOffer\<close>,
  \<^verbatim>\<open>handleRateOrder\<close>).

  JavaScript numbers are IEEE doubles. They are modelled by exact rationals, so a statement
  about a price is a statement about the arithmetic the source spells out, not about
  rounding errors of the double format. \<^verbatim>\<open>Math.round\<close> rounds halves upwards,
  \<open>\<lfloor>x + 1/2\<rfloor>\<close>, which is \<^const>\<open>round\<close>; its result is a number again, hence the
  \<^const>\<open>of_int\<close> around it. Every concrete input evaluated below is one on which the
  double arithmetic gives the same number.
\<close>

text \<open>
  Modelled from the spec: the enums and interfaces of \<^verbatim>\<open>../types\<close>
  (\<^verbatim>\<open>OrderCategory\<close>, \<^verbatim>\<open>VehicleType\<close>, \<^verbatim>\<open>OrderStatus\<close>, \<^verbatim>\<open>Village\<close>,
  \<^verbatim>\<open>MenuItem\<close>, \<^verbatim>\<open>CartItem\<close>, \<^verbatim>\<open>Offer\<close>, \<^verbatim>\<open>Order\<close>) are imported by the
  source and are not part of it. Their members are the ones the source reads and writes;
  \<^verbatim>\<open>ACTIVE_DELIVERY\<close> is the state the specification names between acceptance and
  delivery.
\<close>

datatype OrderCategory = TAXI | FOOD | PHARMACY

datatype VehicleType = MOTORCYCLE | TOKTOK | CAR

datatype OrderStatus =
  WAITING_FOR_OFFERS | ACCEPTED | ACTIVE_DELIVERY | DELIVERED | DELIVERED_RATED | CANCELLED

record Village =
  village_id :: string
  village_name :: string

record MenuItem =
  menu_id :: string
  menu_name :: string
  menu_price :: rat

record CartItem =
  item_id :: string
  item_name :: string
  item_price :: rat
  quantity :: int

record Offer =
  offer_id :: string
  offer_orderId :: string
  offer_driverId :: string
  offer_driverName :: string
  offer_driverPhone :: string
  offer_driverPhoto :: "string option"
  offer_price :: rat

record Order =
  order_id :: string
  customerId :: string
  status :: OrderStatus
  price :: rat
  driverId :: "string option"
  driverName :: "string option"
  driverPhone :: "string option"
  driverPhoto :: "string option"
  acceptedAt :: "int option"
  order_rating :: "rat option"
  order_feedback :: "string option"
  ratedAt :: "int option"

text \<open>
  Modelled from the spec: \<^verbatim>\<open>DEFAULT_PRICING\<close> of \<^verbatim>\<open>../config/constants\<close> is imported
  by the source and is not part of it. It is a parameter of every price function below.
  \<^verbatim>\<open>multipliers\<close> is an object indexed by vehicle type; a missing key reads as
  \<^verbatim>\<open>undefined\<close>, here \<^const>\<open>None\<close>.
\<close>

record Pricing =
  basePrice :: rat
  pricePerKm :: rat
  minPrice :: rat
  sameVillagePrice :: rat
  deliveryBasePrice :: rat
  foodOutsidePricePerKm :: rat
  multipliers :: "VehicleType \<Rightarrow> rat option"

text \<open>
  The state of the dashboard component that the embedded functions read and write: one
  field for each \<^verbatim>\<open>useState\<close> cell, under the source's name. \<^verbatim>\<open>activeOrder\<close> is the
  session's last snapshot of the order, not the stored document.
\<close>

record Dashboard =
  selectedCategory :: OrderCategory
  pickupVillage :: "Village option"
  dropoffVillage :: "Village option"
  selectedVehicle :: VehicleType
  activeOrder :: "Order option"
  actualRoadDist :: rat
  isCalculatingDist :: bool
  rating :: rat
  feedback :: string
  isSubmitting :: bool

text \<open>The initial values of those cells, lines 370 to 397.\<close>

definition initialDashboard :: Dashboard where
  "initialDashboard =
     \<lparr>selectedCategory = TAXI, pickupVillage = None, dropoffVillage = None,
      selectedVehicle = MOTORCYCLE, activeOrder = None, actualRoadDist = 0,
      isCalculatingDist = False, rating = 5, feedback = [], isSubmitting = False\<rparr>"

text \<open>The state of the restaurant menu view that its price function and cart read.\<close>

record MenuView =
  restaurant_address :: string
  currentVillage :: "Village option"
  roadDist :: rat
  cart :: "CartItem list"

section \<open>The price estimate of the dashboard\<close>

text \<open>
  \<^verbatim>\<open>DEFAULT_PRICING.multipliers[selectedVehicle] || 1\<close>: the configured scalar, and 1
  where it is missing or zero (zero is falsy).
\<close>

definition vehicleMultiplier :: "Pricing \<Rightarrow> VehicleType \<Rightarrow> rat" where
  "vehicleMultiplier cfg v =
     (case multipliers cfg v of
        None \<Rightarrow> 1
      | Some m \<Rightarrow> if m = 0 then 1 else m)"

text \<open>
  \<^verbatim>\<open>pickupVillage?.id === dropoffVillage.id\<close>: with no pickup village the left side is
  \<^verbatim>\<open>undefined\<close> and the comparison is false.
\<close>

definition samePickupId :: "Village option \<Rightarrow> Village \<Rightarrow> bool" where
  "samePickupId pv dv =
     (case pv of None \<Rightarrow> False | Some p \<Rightarrow> village_id p = village_id dv)"

text \<open>\<^verbatim>\<open>getEstimatedPrice\<close>, lines 452 to 473, branch by branch in the source's order.\<close>

definition getEstimatedPrice :: "Pricing \<Rightarrow> Dashboard \<Rightarrow> rat" where
  "getEstimatedPrice cfg st =
     (case dropoffVillage st of
        None \<Rightarrow> 0
      | Some dv \<Rightarrow>
          let multiplier = vehicleMultiplier cfg (selectedVehicle st) in
          if selectedCategory st = TAXI \<and> samePickupId (pickupVillage st) dv
            then sameVillagePrice cfg
          else if selectedCategory st = PHARMACY
            then max (deliveryBasePrice cfg)
                   (of_int (round ((deliveryBasePrice cfg + actualRoadDist st * pricePerKm cfg)
                                     * multiplier)))
          else if selectedCategory st = FOOD \<and> \<not> samePickupId (pickupVillage st) dv
            then of_int (round (actualRoadDist st * foodOutsidePricePerKm cfg))
          else max (minPrice cfg)
                 (of_int (round ((basePrice cfg + actualRoadDist st * pricePerKm cfg)
                                   * multiplier))))"

section \<open>The two distance fares as the specification writes them\<close>

text \<open>
  Rules 4 and 5 of the specification's pricing engine, in its words: the fare is rounded
  after the minimum is taken, and the multiplier is the scalar configured for the vehicle
  type, 1 if none is configured. They are compared with \<^const>\<open>getEstimatedPrice\<close> below.
\<close>

definition specMultiplier :: "Pricing \<Rightarrow> VehicleType \<Rightarrow> rat" where
  "specMultiplier cfg v = (case multipliers cfg v of None \<Rightarrow> 1 | Some m \<Rightarrow> m)"

definition specTaxiPrice :: "Pricing \<Rightarrow> rat \<Rightarrow> VehicleType \<Rightarrow> rat" where
  "specTaxiPrice cfg distanceKm v =
     of_int (round (max (minPrice cfg)
                      ((basePrice cfg + distanceKm * pricePerKm cfg) * specMultiplier cfg v)))"

definition specPharmacyPrice :: "Pricing \<Rightarrow> rat \<Rightarrow> VehicleType \<Rightarrow> rat" where
  "specPharmacyPrice cfg distanceKm v =
     of_int (round (max (deliveryBasePrice cfg)
                      ((deliveryBasePrice cfg + distanceKm * pricePerKm cfg)
                         * specMultiplier cfg v)))"

section \<open>The road-distance effect\<close>

text \<open>
  The promise of \<^verbatim>\<open>getRoadDistance\<close> either resolves with a distance or is rejected.
\<close>

datatype RoadDistance = Resolved rat | Rejected

text \<open>
  What both \<^verbatim>\<open>then\<close>/\<^verbatim>\<open>catch\<close> pairs of the effect do once the promise has settled:
  a resolved distance is stored, a rejection only clears the spinner flag and leaves
  \<^verbatim>\<open>actualRoadDist\<close> as it was.
\<close>

definition settleDistance :: "RoadDistance \<Rightarrow> Dashboard \<Rightarrow> Dashboard" where
  "settleDistance res st =
     (case res of
        Resolved d \<Rightarrow> st\<lparr>actualRoadDist := d, isCalculatingDist := False\<rparr>
      | Rejected \<Rightarrow> st\<lparr>isCalculatingDist := False\<rparr>)"

text \<open>
  The effect of lines 413 to 439, run to the point where the oracle's promise has settled
  with \<open>res\<close>: equal village ids set the distance to 0 without asking the oracle; two
  different villages, or a pharmacy order with a dropoff village, ask it.
\<close>

definition distanceEffect :: "RoadDistance \<Rightarrow> Dashboard \<Rightarrow> Dashboard" where
  "distanceEffect res st =
     (case (pickupVillage st, dropoffVillage st) of
        (Some pv, Some dv) \<Rightarrow>
          if village_id pv = village_id dv then st\<lparr>actualRoadDist := 0\<rparr>
          else settleDistance res (st\<lparr>isCalculatingDist := True\<rparr>)
      | (_, dvo) \<Rightarrow>
          if selectedCategory st = PHARMACY \<and> dvo \<noteq> None
            then settleDistance res (st\<lparr>isCalculatingDist := True\<rparr>)
          else st)"

section \<open>The restaurant menu: delivery price and cart\<close>

text \<open>\<^verbatim>\<open>getDeliveryPrice\<close>, lines 232 to 246.\<close>

definition getDeliveryPrice :: "Pricing \<Rightarrow> MenuView \<Rightarrow> rat" where
  "getDeliveryPrice cfg mv =
     (case currentVillage mv of
        None \<Rightarrow> 0
      | Some v \<Rightarrow>
          let isSameVillage = (restaurant_address mv = village_name v) in
          if isSameVillage then sameVillagePrice cfg
          else of_int (round (roadDist mv * foodOutsidePricePerKm cfg)))"

text \<open>\<^verbatim>\<open>addToCart\<close>, lines 218 to 224, as the function handed to \<^verbatim>\<open>setCart\<close>.\<close>

definition addToCart :: "MenuItem \<Rightarrow> CartItem list \<Rightarrow> CartItem list" where
  "addToCart item prev =
     (case find (\<lambda>i. item_id i = menu_id item) prev of
        Some existing \<Rightarrow>
          map (\<lambda>i. if item_id i = menu_id item then i\<lparr>quantity := quantity i + 1\<rparr> else i) prev
      | None \<Rightarrow>
          prev @ [\<lparr>item_id = menu_id item, item_name = menu_name item,
                    item_price = menu_price item, quantity = 1\<rparr>])"

text \<open>\<^verbatim>\<open>removeFromCart\<close>, lines 226 to 228.\<close>

definition removeFromCart :: "string \<Rightarrow> CartItem list \<Rightarrow> CartItem list" where
  "removeFromCart ident prev =
     filter (\<lambda>i. quantity i > 0)
       (map (\<lambda>i. if item_id i = ident then i\<lparr>quantity := max 0 (quantity i - 1)\<rparr> else i) prev)"

text \<open>
  The quantity shown beside a menu item, line 296:
  \<^verbatim>\<open>cart.find(i => i.id === item.id)?.quantity || 0\<close>.
\<close>

definition shownQuantity :: "CartItem list \<Rightarrow> string \<Rightarrow> int" where
  "shownQuantity c ident =
     (case find (\<lambda>i. item_id i = ident) c of None \<Rightarrow> 0 | Some i \<Rightarrow> quantity i)"

text \<open>
  The two buttons of a menu row, and a run of presses from the empty cart the view starts
  with (line 197).
\<close>

datatype CartOp = Add MenuItem | Remove string

fun applyCartOp :: "CartItem list \<Rightarrow> CartOp \<Rightarrow> CartItem list" where
  "applyCartOp c (Add item) = addToCart item c"
| "applyCartOp c (Remove ident) = removeFromCart ident c"

definition runCart :: "CartOp list \<Rightarrow> CartItem list" where
  "runCart ops = foldl applyCartOp [] ops"

text \<open>The invariant of the item list: positive quantities, no id twice.\<close>

definition cartInvariant :: "CartItem list \<Rightarrow> bool" where
  "cartInvariant c \<longleftrightarrow> distinct (map item_id c) \<and> list_all (\<lambda>i. 0 < quantity i) c"

section \<open>The order documents and the two handlers that write them\<close>

text \<open>
  The \<^verbatim>\<open>orders\<close> collection, by document id. \<^verbatim>\<open>updateDoc\<close> belongs to the Firestore
  client library, not to the repository; it is modelled by its contract: the given fields
  are merged into the existing document, whatever the document holds, and the promise is
  rejected when there is no such document. The store applies one write at a time, so writes
  of several sessions take effect in some order, one after the other.
\<close>

type_synonym Orders = "string \<Rightarrow> Order option"

datatype StoreError = NotFound

definition updateDoc :: "string \<Rightarrow> (Order \<Rightarrow> Order) \<Rightarrow> Orders \<Rightarrow> StoreError + Orders" where
  "updateDoc ref upd db =
     (case db ref of
        None \<Rightarrow> Inl NotFound
      | Some d \<Rightarrow> Inr (db(ref \<mapsto> upd d)))"

text \<open>
  What a handler reports: it returned at once for want of an active order, its write went
  through, or the write was rejected and the \<^verbatim>\<open>catch\<close> branch raised its alert.
\<close>

datatype HandlerResult = NoActiveOrder | Written | WriteFailed

text \<open>\<^verbatim>\<open>offer.driverPhoto || null\<close>: a missing or empty photo is stored as \<^verbatim>\<open>null\<close>.\<close>

definition orNull :: "string option \<Rightarrow> string option" where
  "orNull p = (case p of None \<Rightarrow> None | Some s \<Rightarrow> if s = [] then None else Some s)"

text \<open>The fields \<^verbatim>\<open>handleAcceptOffer\<close> writes, lines 501 to 509; \<open>now\<close> is \<^verbatim>\<open>Date.now()\<close>.\<close>

definition acceptFields :: "Offer \<Rightarrow> int \<Rightarrow> Order \<Rightarrow> Order" where
  "acceptFields offer now d =
     d\<lparr>driverId := Some (offer_driverId offer),
       driverName := Some (offer_driverName offer),
       driverPhone := Some (offer_driverPhone offer),
       driverPhoto := orNull (offer_driverPhoto offer),
       status := ACCEPTED,
       acceptedAt := Some now,
       price := offer_price offer\<rparr>"

text \<open>\<^verbatim>\<open>handleAcceptOffer\<close>, lines 498 to 511.\<close>

definition handleAcceptOffer :: "Offer \<Rightarrow> int \<Rightarrow> Dashboard \<Rightarrow> Orders \<Rightarrow> HandlerResult \<times> Orders" where
  "handleAcceptOffer offer now st db =
     (case activeOrder st of
        None \<Rightarrow> (NoActiveOrder, db)
      | Some a \<Rightarrow>
          (case updateDoc (order_id a) (acceptFields offer now) db of
             Inr db' \<Rightarrow> (Written, db')
           | Inl e \<Rightarrow> (WriteFailed, db)))"

text \<open>
  \<^verbatim>\<open>String.prototype.trim\<close> strips the white space and the line terminators of
  ECMAScript from both ends. A \<^typ>\<open>string\<close> holds the UTF-8 bytes of the text, so each of
  those code points is the byte sequence that encodes it: U+0009 to U+000D, U+0020, U+00A0,
  U+1680, U+2000 to U+200A, U+2028, U+2029, U+202F, U+205F, U+3000 and U+FEFF.
\<close>

definition whiteSpace :: "string list" where
  "whiteSpace =
     [[CHR 0x09], [CHR 0x0A], [CHR 0x0B], [CHR 0x0C], [CHR 0x0D], [CHR 0x20],
      [CHR 0xC2, CHR 0xA0],
      [CHR 0xE1, CHR 0x9A, CHR 0x80],
      [CHR 0xE2, CHR 0x80, CHR 0x80], [CHR 0xE2, CHR 0x80, CHR 0x81],
      [CHR 0xE2, CHR 0x80, CHR 0x82], [CHR 0xE2, CHR 0x80, CHR 0x83],
      [CHR 0xE2, CHR 0x80, CHR 0x84], [CHR 0xE2, CHR 0x80, CHR 0x85],
      [CHR 0xE2, CHR 0x80, CHR 0x86], [CHR 0xE2, CHR 0x80, CHR 0x87],
      [CHR 0xE2, CHR 0x80, CHR 0x88], [CHR 0xE2, CHR 0x80, CHR 0x89],
      [CHR 0xE2, CHR 0x80, CHR 0x8A],
      [CHR 0xE2, CHR 0x80, CHR 0xA8], [CHR 0xE2, CHR 0x80, CHR 0xA9],
      [CHR 0xE2, CHR 0x80, CHR 0xAF],
      [CHR 0xE2, CHR 0x81, CHR 0x9F],
      [CHR 0xE3, CHR 0x80, CHR 0x80],
      [CHR 0xEF, CHR 0xBB, CHR 0xBF]]"

text \<open>
  Sequences of \<open>ws\<close> are taken off the front of \<open>s\<close> as long as one is there. UTF-8 is
  self-synchronising, so the same on the reversed bytes with the reversed sequences takes
  them off the end.
\<close>

function dropLeading :: "string list \<Rightarrow> string \<Rightarrow> string" where
  "dropLeading ws s =
     (case find (\<lambda>w. w \<noteq> [] \<and> take (length w) s = w) ws of
        None \<Rightarrow> s
      | Some w \<Rightarrow> dropLeading ws (drop (length w) s))"
  by pat_completeness auto
termination
proof (relation "measure (\<lambda>(ws, s). length s)")
  show "wf (measure (\<lambda>(ws, s). length s))"
    by simp
next
  fix ws :: "string list" and s w :: string
  assume "find (\<lambda>w. w \<noteq> [] \<and> take (length w) s = w) ws = Some w"
  then have w: "w \<noteq> []" "take (length w) s = w"
    by (auto simp: find_Some_iff)
  from w(2) have "length (take (length w) s) = length w"
    by simp
  then have "length w \<le> length s"
    by simp
  with w(1) show "((ws, drop (length w) s), (ws, s)) \<in> measure (\<lambda>(ws, s). length s)"
    by (cases w) simp_all
qed

declare dropLeading.simps [simp del]

definition trim :: "string \<Rightarrow> string" where
  "trim s = rev (dropLeading (map rev whiteSpace) (rev (dropLeading whiteSpace s)))"

text \<open>The fields \<^verbatim>\<open>handleRateOrder\<close> writes, lines 560 to 565.\<close>

definition rateFields :: "rat \<Rightarrow> string \<Rightarrow> int \<Rightarrow> Order \<Rightarrow> Order" where
  "rateFields r f now d =
     d\<lparr>status := DELIVERED_RATED,
       order_rating := Some r,
       order_feedback := Some (trim f),
       ratedAt := Some now\<rparr>"

text \<open>
  \<^verbatim>\<open>handleRateOrder\<close>, lines 556 to 574: the form is reset after a write that went
  through, and \<^verbatim>\<open>isSubmitting\<close> is cleared either way.
\<close>

definition handleRateOrder :: "int \<Rightarrow> Dashboard \<Rightarrow> Orders \<Rightarrow> HandlerResult \<times> Dashboard \<times> Orders" where
  "handleRateOrder now st db =
     (case activeOrder st of
        None \<Rightarrow> (NoActiveOrder, st, db)
      | Some a \<Rightarrow>
          (case updateDoc (order_id a) (rateFields (rating st) (feedback st) now) db of
             Inr db' \<Rightarrow> (Written, st\<lparr>feedback := [], rating := 5, isSubmitting := False\<rparr>, db')
           | Inl e \<Rightarrow> (WriteFailed, st\<lparr>isSubmitting := False\<rparr>, db)))"

text \<open>
  The places where the component looks at the status of an order, each time at the
  session's snapshot. The listener of lines 484 to 487 keeps as active order the first one
  of the customer's orders that is neither rated nor cancelled; the offers are listened to
  (line 491) and rendered with their accept buttons (line 849) while that snapshot is
  waiting for offers, the rating form is rendered while it is delivered (line 872).
\<close>

definition selectActiveOrder :: "Order list \<Rightarrow> Order option" where
  "selectActiveOrder orders = find (\<lambda>x. status x \<notin> set [DELIVERED_RATED, CANCELLED]) orders"

definition offersShown :: "Dashboard \<Rightarrow> bool" where
  "offersShown st =
     (case activeOrder st of None \<Rightarrow> False | Some a \<Rightarrow> status a = WAITING_FOR_OFFERS)"

definition ratingFormShown :: "Dashboard \<Rightarrow> bool" where
  "ratingFormShown st =
     (case activeOrder st of None \<Rightarrow> False | Some a \<Rightarrow> status a = DELIVERED)"

section \<open>Example inputs\<close>

text \<open>
  A pricing table with the values of the specification's scenarios, and the two values the
  source's comments give (25 inside a village, 3 per kilometre for food).
\<close>

definition examplePricing :: Pricing where
  "examplePricing =
     \<lparr>basePrice = 10, pricePerKm = 3, minPrice = 15, sameVillagePrice = 25,
      deliveryBasePrice = 20, foodOutsidePricePerKm = 3,
      multipliers = [MOTORCYCLE \<mapsto> 1, CAR \<mapsto> 6 / 5]\<rparr>"

definition villageA :: Village where
  "villageA = \<lparr>village_id = ''v1'', village_name = ''Ashmoun''\<rparr>"

definition villageB :: Village where
  "villageB = \<lparr>village_id = ''v2'', village_name = ''Shatanouf''\<rparr>"

definition taxiDashboard :: Dashboard where
  "taxiDashboard = initialDashboard\<lparr>pickupVillage := Some villageA, dropoffVillage := Some villageB\<rparr>"

definition pharmacyDashboard :: Dashboard where
  "pharmacyDashboard = initialDashboard\<lparr>selectedCategory := PHARMACY, dropoffVillage := Some villageB\<rparr>"

definition foodDashboard :: Dashboard where
  "foodDashboard = initialDashboard\<lparr>selectedCategory := FOOD, dropoffVillage := Some villageB\<rparr>"

definition exampleMenuView :: MenuView where
  "exampleMenuView =
     \<lparr>restaurant_address = ''Ashmoun'', currentVillage = Some villageB, roadDist = 0, cart = []\<rparr>"

definition koshary :: MenuItem where
  "koshary = \<lparr>menu_id = ''m1'', menu_name = ''koshary'', menu_price = 30\<rparr>"

definition falafel :: MenuItem where
  "falafel = \<lparr>menu_id = ''m2'', menu_name = ''falafel'', menu_price = 12\<rparr>"

definition examplePresses :: "CartOp list" where
  "examplePresses = [Add koshary, Add falafel, Add koshary, Remove ''m2'', Remove ''m9'']"

definition exampleOrder :: Order where
  "exampleOrder =
     \<lparr>order_id = ''o1'', customerId = ''c1'', status = WAITING_FOR_OFFERS, price = 48,
      driverId = None, driverName = None, driverPhone = None, driverPhoto = None,
      acceptedAt = None, order_rating = None, order_feedback = None, ratedAt = None\<rparr>"

definition offerA :: Offer where
  "offerA =
     \<lparr>offer_id = ''f1'', offer_orderId = ''o1'', offer_driverId = ''d1'',
      offer_driverName = ''Amr'', offer_driverPhone = ''0100'', offer_driverPhoto = None,
      offer_price = 45\<rparr>"

definition offerB :: Offer where
  "offerB =
     \<lparr>offer_id = ''f2'', offer_orderId = ''o1'', offer_driverId = ''d2'',
      offer_driverName = ''Bassem'', offer_driverPhone = ''0111'',
      offer_driverPhoto = Some ''b.png'', offer_price = 50\<rparr>"

definition exampleOrders :: Orders where
  "exampleOrders = [''o1'' \<mapsto> exampleOrder]"

definition waitingDashboard :: Dashboard where
  "waitingDashboard = initialDashboard\<lparr>activeOrder := Some exampleOrder\<rparr>"

definition deliveredOrder :: Order where
  "deliveredOrder =
     \<lparr>order_id = ''o1'', customerId = ''c1'', status = DELIVERED, price = 45,
      driverId = Some ''d1'', driverName = Some ''Amr'', driverPhone = Some ''0100'',
      driverPhoto = None, acceptedAt = Some 1000, order_rating = None,
      order_feedback = None, ratedAt = None\<rparr>"

definition deliveredOrders :: Orders where
  "deliveredOrders = [''o1'' \<mapsto> deliveredOrder]"

definition ratingDashboard :: Dashboard where
  "ratingDashboard =
     initialDashboard\<lparr>activeOrder := Some deliveredOrder, rating := 4, feedback := '' good ''\<rparr>"

definition otherRatingDashboard :: Dashboard where
  "otherRatingDashboard =
     initialDashboard\<lparr>activeOrder := Some deliveredOrder, rating := 1, feedback := ''late''\<rparr>"

section \<open>Rounding and the minimum\<close>

lemma round_max_whole:
  fixes m x :: rat
  assumes "m \<in> \<int>"
  shows "of_int (round (max m x)) = max m (of_int (round x))"
proof -
  from assms obtain k where k: "m = of_int k"
    by (auto elim: Ints_cases)
  show ?thesis
  proof (cases "x \<le> m")
    case True
    then have "round x \<le> k"
      using round_mono [of x m] k by simp
    with True k show ?thesis
      by (simp add: max_def)
  next
    case False
    then have "k \<le> round x"
      using round_mono [of m x] k by simp
    with False k show ?thesis
      by (simp add: max_def)
  qed
qed

text \<open>
  For a minimum that is not a whole number the order of the two operations shows: with a
  minimum of 15.5 and a computed 13, rounding last gives 16 and rounding first 15.5.
\<close>

lemma round_max_fraction:
  "of_int (round (max (31 / 2) (13 :: rat))) = (16 :: rat)
   \<and> max (31 / 2) (of_int (round (13 :: rat))) = (31 / 2 :: rat)"
proof -
  have "max (31 / 2) (13 :: rat) = 31 / 2"
    by simp
  moreover have "round (31 / 2 :: rat) = 16"
    by (simp add: round_def)
  moreover have "max (31 / 2) (of_int (round (13 :: rat))) = (31 / 2 :: rat)"
    by simp
  ultimately show ?thesis
    by simp
qed

section \<open>The branches of the price estimate\<close>

lemma getEstimatedPrice_same_village:
  assumes "dropoffVillage st = Some dv"
    and "selectedCategory st = TAXI"
    and "samePickupId (pickupVillage st) dv"
  shows "getEstimatedPrice cfg st = sameVillagePrice cfg"
  using assms by (simp add: getEstimatedPrice_def)

lemma getEstimatedPrice_pharmacy:
  assumes "dropoffVillage st = Some dv"
    and "selectedCategory st = PHARMACY"
  shows "getEstimatedPrice cfg st =
           max (deliveryBasePrice cfg)
             (of_int (round ((deliveryBasePrice cfg + actualRoadDist st * pricePerKm cfg)
                               * vehicleMultiplier cfg (selectedVehicle st))))"
  using assms by (simp add: getEstimatedPrice_def)

lemma getEstimatedPrice_food_cross:
  assumes "dropoffVillage st = Some dv"
    and "selectedCategory st = FOOD"
    and "\<not> samePickupId (pickupVillage st) dv"
  shows "getEstimatedPrice cfg st = of_int (round (actualRoadDist st * foodOutsidePricePerKm cfg))"
  using assms by (simp add: getEstimatedPrice_def)

lemma getEstimatedPrice_taxi_cross:
  assumes "dropoffVillage st = Some dv"
    and "selectedCategory st = TAXI"
    and "\<not> samePickupId (pickupVillage st) dv"
  shows "getEstimatedPrice cfg st =
           max (minPrice cfg)
             (of_int (round ((basePrice cfg + actualRoadDist st * pricePerKm cfg)
                               * vehicleMultiplier cfg (selectedVehicle st))))"
  using assms by (simp add: getEstimatedPrice_def)

lemma getDeliveryPrice_same:
  assumes "currentVillage mv = Some v" and "restaurant_address mv = village_name v"
  shows "getDeliveryPrice cfg mv = sameVillagePrice cfg"
  using assms by (simp add: getDeliveryPrice_def)

lemma getDeliveryPrice_cross:
  assumes "currentVillage mv = Some v" and "restaurant_address mv \<noteq> village_name v"
  shows "getDeliveryPrice cfg mv = of_int (round (roadDist mv * foodOutsidePricePerKm cfg))"
  using assms by (simp add: getDeliveryPrice_def)

lemma vehicleMultiplier_specMultiplier:
  assumes "multipliers cfg v \<noteq> Some 0"
  shows "vehicleMultiplier cfg v = specMultiplier cfg v"
  using assms by (simp add: vehicleMultiplier_def specMultiplier_def split: option.split)

section \<open>Claims about the price estimate\<close>

text \<open>
  C4, as stated, fails. With a minimum price of 15.5, a motorcycle and distance 1 the
  computed fare is 13: the source returns the minimum 15.5, the stated formula rounds it to
  16. With the car's multiplier configured as 0 and distance 10 the source falls back to
  the multiplier 1 and returns 40, where the stated formula multiplies by 0 and gives the
  minimum 15.
\<close>

theorem taxi_cross_village_price_counterexample:
  "getEstimatedPrice (examplePricing\<lparr>minPrice := 31 / 2\<rparr>)
     (taxiDashboard\<lparr>actualRoadDist := 1, selectedVehicle := MOTORCYCLE\<rparr>) = 31 / 2
   \<and> specTaxiPrice (examplePricing\<lparr>minPrice := 31 / 2\<rparr>) 1 MOTORCYCLE = 16
   \<and> getEstimatedPrice (examplePricing\<lparr>multipliers := [CAR \<mapsto> 0]\<rparr>)
        (taxiDashboard\<lparr>actualRoadDist := 10, selectedVehicle := CAR\<rparr>) = 40
   \<and> specTaxiPrice (examplePricing\<lparr>multipliers := [CAR \<mapsto> 0]\<rparr>) 10 CAR = 15"
proof -
  have half: "round (31 / 2 :: rat) = 16"
    by (simp add: round_def)
  have "getEstimatedPrice (examplePricing\<lparr>minPrice := 31 / 2\<rparr>)
          (taxiDashboard\<lparr>actualRoadDist := 1, selectedVehicle := MOTORCYCLE\<rparr>) = 31 / 2"
    by (simp add: getEstimatedPrice_def examplePricing_def taxiDashboard_def
          initialDashboard_def villageA_def villageB_def samePickupId_def vehicleMultiplier_def)
  moreover have "specTaxiPrice (examplePricing\<lparr>minPrice := 31 / 2\<rparr>) 1 MOTORCYCLE = 16"
    by (simp add: specTaxiPrice_def specMultiplier_def examplePricing_def half)
  moreover have "getEstimatedPrice (examplePricing\<lparr>multipliers := [CAR \<mapsto> 0]\<rparr>)
          (taxiDashboard\<lparr>actualRoadDist := 10, selectedVehicle := CAR\<rparr>) = 40"
    by (simp add: getEstimatedPrice_def examplePricing_def taxiDashboard_def
          initialDashboard_def villageA_def villageB_def samePickupId_def vehicleMultiplier_def)
  moreover have "specTaxiPrice (examplePricing\<lparr>multipliers := [CAR \<mapsto> 0]\<rparr>) 10 CAR = 15"
    by (simp add: specTaxiPrice_def specMultiplier_def examplePricing_def)
  ultimately show ?thesis
    by blast
qed

text \<open>
  C4, amended: for every distance and every vehicle type, the estimate for a taxi order
  whose pickup and dropoff villages differ is
  \<open>max minPrice (round ((basePrice + distance * pricePerKm) * m))\<close>, where \<open>m\<close> is the
  multiplier configured for the vehicle type, and 1 when none is configured or the
  configured one is 0. This is the stated
  \<open>round (max minPrice ((basePrice + distance * pricePerKm) * vehicleMultiplier))\<close> whenever
  the minimum price is a whole number and the configured multiplier is not 0; with
  distance 10, a car, base price 10, 3 per kilometre, minimum 15 and the car's multiplier
  1.2 it is 48.
\<close>

theorem taxi_cross_village_price:
  assumes "selectedCategory st = TAXI"
    and "dropoffVillage st = Some dv"
    and "\<not> samePickupId (pickupVillage st) dv"
  shows "getEstimatedPrice cfg (st\<lparr>actualRoadDist := d, selectedVehicle := v\<rparr>) =
           max (minPrice cfg)
             (of_int (round ((basePrice cfg + d * pricePerKm cfg)
                               * (case multipliers cfg v of
                                    None \<Rightarrow> 1
                                  | Some m \<Rightarrow> if m = 0 then 1 else m))))
         \<and> (minPrice cfg \<in> \<int> \<and> multipliers cfg v \<noteq> Some 0
            \<longrightarrow> getEstimatedPrice cfg (st\<lparr>actualRoadDist := d, selectedVehicle := v\<rparr>)
                  = specTaxiPrice cfg d v)
         \<and> (basePrice cfg = 10 \<and> pricePerKm cfg = 3 \<and> minPrice cfg = 15
              \<and> multipliers cfg CAR = Some (6 / 5)
            \<longrightarrow> getEstimatedPrice cfg (st\<lparr>actualRoadDist := 10, selectedVehicle := CAR\<rparr>) = 48)"
proof -
  have branch: "getEstimatedPrice cfg (st\<lparr>actualRoadDist := e, selectedVehicle := w\<rparr>) =
      max (minPrice cfg)
        (of_int (round ((basePrice cfg + e * pricePerKm cfg) * vehicleMultiplier cfg w)))" for e w
    using getEstimatedPrice_taxi_cross [of "st\<lparr>actualRoadDist := e, selectedVehicle := w\<rparr>" dv cfg]
      assms by simp
  have explicit: "getEstimatedPrice cfg (st\<lparr>actualRoadDist := d, selectedVehicle := v\<rparr>) =
      max (minPrice cfg)
        (of_int (round ((basePrice cfg + d * pricePerKm cfg)
                          * (case multipliers cfg v of
                               None \<Rightarrow> 1
                             | Some m \<Rightarrow> if m = 0 then 1 else m))))"
    using branch [where e = d and w = v] by (simp add: vehicleMultiplier_def)
  have stated: "getEstimatedPrice cfg (st\<lparr>actualRoadDist := d, selectedVehicle := v\<rparr>)
      = specTaxiPrice cfg d v"
    if "minPrice cfg \<in> \<int> \<and> multipliers cfg v \<noteq> Some 0"
  proof -
    from that have whole: "minPrice cfg \<in> \<int>" and m: "multipliers cfg v \<noteq> Some 0"
      by simp_all
    show ?thesis
      using branch [where e = d and w = v] round_max_whole [OF whole]
      by (simp add: specTaxiPrice_def vehicleMultiplier_specMultiplier [OF m])
  qed
  have scenario: "getEstimatedPrice cfg (st\<lparr>actualRoadDist := 10, selectedVehicle := CAR\<rparr>) = 48"
    if "basePrice cfg = 10 \<and> pricePerKm cfg = 3 \<and> minPrice cfg = 15
        \<and> multipliers cfg CAR = Some (6 / 5)"
    using that branch [where e = 10 and w = CAR] by (simp add: vehicleMultiplier_def)
  from explicit stated scenario show ?thesis
    by blast
qed

theorem taxi_cross_village_price_witness:
  "selectedCategory taxiDashboard = TAXI
   \<and> dropoffVillage taxiDashboard = Some villageB
   \<and> \<not> samePickupId (pickupVillage taxiDashboard) villageB
   \<and> minPrice examplePricing \<in> \<int>
   \<and> multipliers examplePricing CAR \<noteq> Some 0
   \<and> getEstimatedPrice examplePricing (taxiDashboard\<lparr>actualRoadDist := 10, selectedVehicle := CAR\<rparr>) = 48
   \<and> specTaxiPrice examplePricing 10 CAR = 48
   \<and> getEstimatedPrice examplePricing (taxiDashboard\<lparr>actualRoadDist := 1, selectedVehicle := TOKTOK\<rparr>) = 15"
proof -
  have h1: "selectedCategory taxiDashboard = TAXI"
    by (simp add: taxiDashboard_def initialDashboard_def)
  have h2: "dropoffVillage taxiDashboard = Some villageB"
    by (simp add: taxiDashboard_def initialDashboard_def)
  have h3: "\<not> samePickupId (pickupVillage taxiDashboard) villageB"
    by (simp add: taxiDashboard_def initialDashboard_def samePickupId_def villageA_def villageB_def)
  have h4: "minPrice examplePricing \<in> \<int>"
    by (simp add: examplePricing_def)
  have h5: "multipliers examplePricing CAR \<noteq> Some 0"
    by (simp add: examplePricing_def)
  have car: "getEstimatedPrice examplePricing (taxiDashboard\<lparr>actualRoadDist := 10, selectedVehicle := CAR\<rparr>) = 48"
    using taxi_cross_village_price [OF h1 h2 h3, where d = 10 and v = CAR and cfg = examplePricing]
    by (simp add: examplePricing_def)
  have "specTaxiPrice examplePricing 10 CAR = 48"
    using taxi_cross_village_price [OF h1 h2 h3, where d = 10 and v = CAR and cfg = examplePricing]
      h4 h5 car
    by simp
  moreover have "getEstimatedPrice examplePricing (taxiDashboard\<lparr>actualRoadDist := 1, selectedVehicle := TOKTOK\<rparr>) = 15"
    using taxi_cross_village_price [OF h1 h2 h3, where d = 1 and v = TOKTOK and cfg = examplePricing]
    by (simp add: examplePricing_def)
  ultimately show ?thesis
    using h1 h2 h3 h4 h5 car by blast
qed

text \<open>
  C5, as stated, fails. With a delivery base price of 20.5, the motorcycle's multiplier
  0.5 and distance 2 the computed fare is 13.25: the source returns the base price 20.5,
  the stated formula rounds it to 21. With the motorcycle's multiplier configured as 0
  and distance 2 the source falls back to the multiplier 1 and returns 26, where the
  stated formula multiplies by 0 and gives the base price 20.
\<close>

theorem pharmacy_price_counterexample:
  "getEstimatedPrice
     (examplePricing\<lparr>deliveryBasePrice := 41 / 2, multipliers := [MOTORCYCLE \<mapsto> 1 / 2]\<rparr>)
     (pharmacyDashboard\<lparr>actualRoadDist := 2, selectedVehicle := MOTORCYCLE\<rparr>) = 41 / 2
   \<and> specPharmacyPrice
        (examplePricing\<lparr>deliveryBasePrice := 41 / 2, multipliers := [MOTORCYCLE \<mapsto> 1 / 2]\<rparr>)
        2 MOTORCYCLE = 21
   \<and> getEstimatedPrice (examplePricing\<lparr>multipliers := [MOTORCYCLE \<mapsto> 0]\<rparr>)
        (pharmacyDashboard\<lparr>actualRoadDist := 2, selectedVehicle := MOTORCYCLE\<rparr>) = 26
   \<and> specPharmacyPrice (examplePricing\<lparr>multipliers := [MOTORCYCLE \<mapsto> 0]\<rparr>) 2 MOTORCYCLE = 20"
proof -
  have quarter: "round (53 / 4 :: rat) = 13"
    by (rule round_unique) simp_all
  have half: "round (41 / 2 :: rat) = 21"
    by (simp add: round_def)
  have "getEstimatedPrice
          (examplePricing\<lparr>deliveryBasePrice := 41 / 2, multipliers := [MOTORCYCLE \<mapsto> 1 / 2]\<rparr>)
          (pharmacyDashboard\<lparr>actualRoadDist := 2, selectedVehicle := MOTORCYCLE\<rparr>) = 41 / 2"
    by (simp add: getEstimatedPrice_def examplePricing_def pharmacyDashboard_def
          initialDashboard_def samePickupId_def vehicleMultiplier_def quarter)
  moreover have "specPharmacyPrice
          (examplePricing\<lparr>deliveryBasePrice := 41 / 2, multipliers := [MOTORCYCLE \<mapsto> 1 / 2]\<rparr>)
          2 MOTORCYCLE = 21"
    by (simp add: specPharmacyPrice_def specMultiplier_def examplePricing_def half)
  moreover have "getEstimatedPrice (examplePricing\<lparr>multipliers := [MOTORCYCLE \<mapsto> 0]\<rparr>)
          (pharmacyDashboard\<lparr>actualRoadDist := 2, selectedVehicle := MOTORCYCLE\<rparr>) = 26"
    by (simp add: getEstimatedPrice_def examplePricing_def pharmacyDashboard_def
          initialDashboard_def samePickupId_def vehicleMultiplier_def)
  moreover have "specPharmacyPrice (examplePricing\<lparr>multipliers := [MOTORCYCLE \<mapsto> 0]\<rparr>) 2 MOTORCYCLE = 20"
    by (simp add: specPharmacyPrice_def specMultiplier_def examplePricing_def)
  ultimately show ?thesis
    by blast
qed

text \<open>
  C5, amended: for every distance and every vehicle type, the estimate for a pharmacy order
  is \<open>max deliveryBasePrice (round ((deliveryBasePrice + distance * pricePerKm) * m))\<close>,
  where \<open>m\<close> is the multiplier configured for the vehicle type, and 1 when none is
  configured or the configured one is 0. This is the stated \<open>round (max deliveryBasePrice
  ((deliveryBasePrice + distance * pricePerKm) * vehicleMultiplier))\<close> whenever the delivery
  base price is a whole number and the configured multiplier is not 0; with distance 2,
  delivery base price 20, 3 per kilometre and the motorcycle's multiplier 1 it is 26.
\<close>

theorem pharmacy_price:
  assumes "selectedCategory st = PHARMACY"
    and "dropoffVillage st = Some dv"
  shows "getEstimatedPrice cfg (st\<lparr>actualRoadDist := d, selectedVehicle := v\<rparr>) =
           max (deliveryBasePrice cfg)
             (of_int (round ((deliveryBasePrice cfg + d * pricePerKm cfg)
                               * (case multipliers cfg v of
                                    None \<Rightarrow> 1
                                  | Some m \<Rightarrow> if m = 0 then 1 else m))))
         \<and> (deliveryBasePrice cfg \<in> \<int> \<and> multipliers cfg v \<noteq> Some 0
            \<longrightarrow> getEstimatedPrice cfg (st\<lparr>actualRoadDist := d, selectedVehicle := v\<rparr>)
                  = specPharmacyPrice cfg d v)
         \<and> (deliveryBasePrice cfg = 20 \<and> pricePerKm cfg = 3
              \<and> multipliers cfg MOTORCYCLE = Some 1
            \<longrightarrow> getEstimatedPrice cfg (st\<lparr>actualRoadDist := 2, selectedVehicle := MOTORCYCLE\<rparr>) = 26)"
proof -
  have branch: "getEstimatedPrice cfg (st\<lparr>actualRoadDist := e, selectedVehicle := w\<rparr>) =
      max (deliveryBasePrice cfg)
        (of_int (round ((deliveryBasePrice cfg + e * pricePerKm cfg) * vehicleMultiplier cfg w)))"
    for e w
    using getEstimatedPrice_pharmacy [of "st\<lparr>actualRoadDist := e, selectedVehicle := w\<rparr>" dv cfg]
      assms by simp
  have explicit: "getEstimatedPrice cfg (st\<lparr>actualRoadDist := d, selectedVehicle := v\<rparr>) =
      max (deliveryBasePrice cfg)
        (of_int (round ((deliveryBasePrice cfg + d * pricePerKm cfg)
                          * (case multipliers cfg v of
                               None \<Rightarrow> 1
                             | Some m \<Rightarrow> if m = 0 then 1 else m))))"
    using branch [where e = d and w = v] by (simp add: vehicleMultiplier_def)
  have stated: "getEstimatedPrice cfg (st\<lparr>actualRoadDist := d, selectedVehicle := v\<rparr>)
      = specPharmacyPrice cfg d v"
    if "deliveryBasePrice cfg \<in> \<int> \<and> multipliers cfg v \<noteq> Some 0"
  proof -
    from that have whole: "deliveryBasePrice cfg \<in> \<int>" and m: "multipliers cfg v \<noteq> Some 0"
      by simp_all
    show ?thesis
      using branch [where e = d and w = v] round_max_whole [OF whole]
      by (simp add: specPharmacyPrice_def vehicleMultiplier_specMultiplier [OF m])
  qed
  have scenario:
    "getEstimatedPrice cfg (st\<lparr>actualRoadDist := 2, selectedVehicle := MOTORCYCLE\<rparr>) = 26"
    if "deliveryBasePrice cfg = 20 \<and> pricePerKm cfg = 3 \<and> multipliers cfg MOTORCYCLE = Some 1"
    using that branch [where e = 2 and w = MOTORCYCLE] by (simp add: vehicleMultiplier_def)
  from explicit stated scenario show ?thesis
    by blast
qed

theorem pharmacy_price_witness:
  "selectedCategory pharmacyDashboard = PHARMACY
   \<and> dropoffVillage pharmacyDashboard = Some villageB
   \<and> deliveryBasePrice examplePricing \<in> \<int>
   \<and> multipliers examplePricing MOTORCYCLE \<noteq> Some 0
   \<and> getEstimatedPrice examplePricing
        (pharmacyDashboard\<lparr>actualRoadDist := 2, selectedVehicle := MOTORCYCLE\<rparr>) = 26
   \<and> specPharmacyPrice examplePricing 2 MOTORCYCLE = 26
   \<and> getEstimatedPrice examplePricing
        (pharmacyDashboard\<lparr>actualRoadDist := 10, selectedVehicle := CAR\<rparr>) = 60"
proof -
  have h1: "selectedCategory pharmacyDashboard = PHARMACY"
    by (simp add: pharmacyDashboard_def initialDashboard_def)
  have h2: "dropoffVillage pharmacyDashboard = Some villageB"
    by (simp add: pharmacyDashboard_def initialDashboard_def)
  have h3: "deliveryBasePrice examplePricing \<in> \<int>"
    by (simp add: examplePricing_def)
  have h4: "multipliers examplePricing MOTORCYCLE \<noteq> Some 0"
    by (simp add: examplePricing_def)
  have moto: "getEstimatedPrice examplePricing
          (pharmacyDashboard\<lparr>actualRoadDist := 2, selectedVehicle := MOTORCYCLE\<rparr>) = 26"
    using pharmacy_price [OF h1 h2, where d = 2 and v = MOTORCYCLE and cfg = examplePricing]
    by (simp add: examplePricing_def)
  have "specPharmacyPrice examplePricing 2 MOTORCYCLE = 26"
    using pharmacy_price [OF h1 h2, where d = 2 and v = MOTORCYCLE and cfg = examplePricing]
      h3 h4 moto
    by simp
  moreover have "getEstimatedPrice examplePricing
          (pharmacyDashboard\<lparr>actualRoadDist := 10, selectedVehicle := CAR\<rparr>) = 60"
    using pharmacy_price [OF h1 h2, where d = 10 and v = CAR and cfg = examplePricing]
    by (simp add: examplePricing_def)
  ultimately show ?thesis
    using h1 h2 h3 h4 moto by blast
qed

text \<open>
  C6: for a food order across villages the price is exactly
  \<open>round (distance * foodOutsidePricePerKm)\<close>, in the dashboard's estimate and in the
  restaurant menu's delivery price alike, and no minimum is applied: at distance 0 the
  price is 0, below every positive flat fee, minimum price and delivery base price.
\<close>

theorem food_cross_village_price:
  "(selectedCategory st = FOOD \<and> dropoffVillage st = Some dv
      \<and> \<not> samePickupId (pickupVillage st) dv
    \<longrightarrow> getEstimatedPrice cfg (st\<lparr>actualRoadDist := d\<rparr>)
          = of_int (round (d * foodOutsidePricePerKm cfg))
        \<and> getEstimatedPrice cfg (st\<lparr>actualRoadDist := 0\<rparr>) = 0)
   \<and> (currentVillage mv = Some cv \<and> restaurant_address mv \<noteq> village_name cv
    \<longrightarrow> getDeliveryPrice cfg (mv\<lparr>roadDist := d\<rparr>)
          = of_int (round (d * foodOutsidePricePerKm cfg))
        \<and> getDeliveryPrice cfg (mv\<lparr>roadDist := 0\<rparr>) = 0)"
proof -
  have estimate: "getEstimatedPrice cfg (st\<lparr>actualRoadDist := e\<rparr>)
        = of_int (round (e * foodOutsidePricePerKm cfg))"
    if "selectedCategory st = FOOD \<and> dropoffVillage st = Some dv
        \<and> \<not> samePickupId (pickupVillage st) dv" for e
    using that getEstimatedPrice_food_cross [of "st\<lparr>actualRoadDist := e\<rparr>" dv cfg] by simp
  have delivery: "getDeliveryPrice cfg (mv\<lparr>roadDist := e\<rparr>)
        = of_int (round (e * foodOutsidePricePerKm cfg))"
    if "currentVillage mv = Some cv \<and> restaurant_address mv \<noteq> village_name cv" for e
    using that getDeliveryPrice_cross [of "mv\<lparr>roadDist := e\<rparr>" cv cfg] by simp
  show ?thesis
    using estimate [of d] estimate [of 0] delivery [of d] delivery [of 0] by simp
qed

theorem food_cross_village_price_witness:
  "getEstimatedPrice examplePricing (foodDashboard\<lparr>actualRoadDist := 4\<rparr>) = 12
   \<and> getEstimatedPrice examplePricing (foodDashboard\<lparr>actualRoadDist := 0\<rparr>) = 0
   \<and> getDeliveryPrice examplePricing (exampleMenuView\<lparr>roadDist := 4\<rparr>) = 12
   \<and> getDeliveryPrice examplePricing (exampleMenuView\<lparr>roadDist := 0\<rparr>) = 0
   \<and> 0 < sameVillagePrice examplePricing \<and> 0 < minPrice examplePricing
   \<and> 0 < deliveryBasePrice examplePricing"
proof -
  have h1: "selectedCategory foodDashboard = FOOD \<and> dropoffVillage foodDashboard = Some villageB
      \<and> \<not> samePickupId (pickupVillage foodDashboard) villageB"
    by (simp add: foodDashboard_def initialDashboard_def samePickupId_def)
  have h2: "currentVillage exampleMenuView = Some villageB
      \<and> restaurant_address exampleMenuView \<noteq> village_name villageB"
    by (simp add: exampleMenuView_def villageB_def)
  show ?thesis
    using food_cross_village_price [of foodDashboard villageB examplePricing 4 exampleMenuView villageB]
      h1 h2
    by (simp add: examplePricing_def)
qed

text \<open>
  C7: a taxi order whose pickup and dropoff villages have the same id costs the flat fee
  \<open>sameVillagePrice\<close>, whatever the vehicle type and whatever the distance.
\<close>

theorem taxi_same_village_price:
  assumes "selectedCategory st = TAXI"
    and "pickupVillage st = Some pv"
    and "dropoffVillage st = Some dv"
    and "village_id pv = village_id dv"
  shows "getEstimatedPrice cfg (st\<lparr>actualRoadDist := d, selectedVehicle := v\<rparr>)
           = sameVillagePrice cfg"
  using assms
    getEstimatedPrice_same_village [of "st\<lparr>actualRoadDist := d, selectedVehicle := v\<rparr>" dv cfg]
  by (simp add: samePickupId_def)

theorem taxi_same_village_price_witness:
  "getEstimatedPrice examplePricing
     (taxiDashboard\<lparr>dropoffVillage := Some villageA, actualRoadDist := 40, selectedVehicle := CAR\<rparr>)
     = 25"
proof -
  let ?st = "taxiDashboard\<lparr>dropoffVillage := Some villageA\<rparr>"
  have "getEstimatedPrice examplePricing (?st\<lparr>actualRoadDist := 40, selectedVehicle := CAR\<rparr>)
          = sameVillagePrice examplePricing"
    by (rule taxi_same_village_price [of ?st villageA villageA])
       (simp_all add: taxiDashboard_def initialDashboard_def)
  then show ?thesis
    by (simp add: examplePricing_def)
qed

text \<open>
  C8: in the restaurant menu the delivery is inside the village when the restaurant's
  address string equals the name of the dropoff village; then the delivery price is the
  flat fee \<open>sameVillagePrice\<close> whatever the road distance, and when the two strings differ
  it is the distance price.
\<close>

theorem food_same_village_by_name:
  assumes "currentVillage mv = Some cv"
  shows "(restaurant_address mv = village_name cv
            \<longrightarrow> getDeliveryPrice cfg (mv\<lparr>roadDist := d\<rparr>) = sameVillagePrice cfg)
         \<and> (restaurant_address mv \<noteq> village_name cv
            \<longrightarrow> getDeliveryPrice cfg (mv\<lparr>roadDist := d\<rparr>)
                  = of_int (round (d * foodOutsidePricePerKm cfg)))"
  using assms by (simp add: getDeliveryPrice_def)

theorem food_same_village_by_name_witness:
  "getDeliveryPrice examplePricing
     (exampleMenuView\<lparr>currentVillage := Some villageA, roadDist := 7\<rparr>) = 25
   \<and> getDeliveryPrice examplePricing (exampleMenuView\<lparr>roadDist := 7\<rparr>) = 21"
proof -
  have a: "currentVillage (exampleMenuView\<lparr>currentVillage := Some villageA\<rparr>) = Some villageA"
    by simp
  have b: "currentVillage exampleMenuView = Some villageB"
    by (simp add: exampleMenuView_def)
  show ?thesis
    using food_same_village_by_name [OF a, of examplePricing 7]
      food_same_village_by_name [OF b, of examplePricing 7]
    by (simp add: exampleMenuView_def villageA_def villageB_def examplePricing_def)
qed

section \<open>The cart\<close>

lemma find_by_id_map:
  assumes "\<And>i. item_id (g i) = item_id i"
  shows "find (\<lambda>i. item_id i = k) (map g xs) = map_option g (find (\<lambda>i. item_id i = k) xs)"
  using assms by (induction xs) simp_all

lemma find_by_id_distinct:
  assumes "distinct (map item_id xs)" and "y \<in> set xs"
  shows "find (\<lambda>i. item_id i = item_id y) xs = Some y"
  using assms by (induction xs) (auto simp: image_iff)

lemma find_by_id_None: "find (\<lambda>i. item_id i = k) xs = None \<longleftrightarrow> k \<notin> item_id ` set xs"
  by (auto simp: find_None_iff)

lemma addToCart_existing:
  assumes "menu_id item \<in> item_id ` set c"
  shows "addToCart item c =
           map (\<lambda>i. if item_id i = menu_id item then i\<lparr>quantity := quantity i + 1\<rparr> else i) c"
proof -
  from assms have "find (\<lambda>i. item_id i = menu_id item) c \<noteq> None"
    by (simp add: find_by_id_None)
  then show ?thesis
    by (auto simp: addToCart_def)
qed

lemma addToCart_new:
  assumes "menu_id item \<notin> item_id ` set c"
  shows "addToCart item c =
           c @ [\<lparr>item_id = menu_id item, item_name = menu_name item,
                  item_price = menu_price item, quantity = 1\<rparr>]"
  using assms by (simp add: addToCart_def find_by_id_None [symmetric])

lemma addToCart_existing_ids:
  assumes "menu_id item \<in> item_id ` set c"
  shows "map item_id (addToCart item c) = map item_id c"
  by (simp add: addToCart_existing [OF assms] comp_def if_distrib [of item_id] cong: if_cong)

lemma addToCart_existing_quantity:
  assumes "menu_id item \<in> item_id ` set c"
  shows "shownQuantity (addToCart item c) (menu_id item) = shownQuantity c (menu_id item) + 1"
proof -
  from assms obtain e where e: "find (\<lambda>i. item_id i = menu_id item) c = Some e"
    by (cases "find (\<lambda>i. item_id i = menu_id item) c") (simp_all add: find_by_id_None)
  then have "item_id e = menu_id item"
    by (auto simp: find_Some_iff)
  with e show ?thesis
    by (simp add: shownQuantity_def addToCart_existing [OF assms] find_by_id_map)
qed

lemma cartInvariant_addToCart:
  assumes "cartInvariant c"
  shows "cartInvariant (addToCart item c)"
proof (cases "menu_id item \<in> item_id ` set c")
  case True
  have "list_all (\<lambda>i. 0 < quantity i) (addToCart item c)"
    using assms by (auto simp: addToCart_existing [OF True] cartInvariant_def list_all_iff)
  with assms show ?thesis
    by (simp add: cartInvariant_def addToCart_existing_ids [OF True])
next
  case False
  with assms show ?thesis
    by (simp add: addToCart_new cartInvariant_def)
qed

lemma removeFromCart_ids:
  "map item_id (removeFromCart ident c) =
     map item_id (filter (\<lambda>i. 0 < (if item_id i = ident then max 0 (quantity i - 1) else quantity i)) c)"
  by (induction c) (simp_all add: removeFromCart_def)

lemma cartInvariant_removeFromCart:
  assumes "cartInvariant c"
  shows "cartInvariant (removeFromCart ident c)"
proof -
  have "distinct (map item_id (removeFromCart ident c))"
    using assms by (simp add: removeFromCart_ids cartInvariant_def distinct_map_filter)
  moreover have "list_all (\<lambda>i. 0 < quantity i) (removeFromCart ident c)"
    by (simp add: removeFromCart_def list_all_iff)
  ultimately show ?thesis
    by (simp add: cartInvariant_def)
qed

lemma cartInvariant_applyCartOp:
  "cartInvariant c \<Longrightarrow> cartInvariant (applyCartOp c p)"
  by (cases p) (simp_all add: cartInvariant_addToCart cartInvariant_removeFromCart)

lemma cartInvariant_foldl:
  "cartInvariant c \<Longrightarrow> cartInvariant (foldl applyCartOp c ops)"
  by (induction ops arbitrary: c) (simp_all add: cartInvariant_applyCartOp)

lemma cartInvariant_runCart: "cartInvariant (runCart ops)"
  unfolding runCart_def by (rule cartInvariant_foldl) (simp add: cartInvariant_def)

lemma removeFromCart_last_unit:
  assumes "cartInvariant c" and "shownQuantity c ident \<le> 1"
  shows "ident \<notin> item_id ` set (removeFromCart ident c)"
proof
  let ?f = "\<lambda>i. if item_id i = ident then i\<lparr>quantity := max 0 (quantity i - 1)\<rparr> else i"
  assume "ident \<in> item_id ` set (removeFromCart ident c)"
  then obtain x where x: "x \<in> set (removeFromCart ident c)" "item_id x = ident"
    by auto
  from x(1) obtain y where y: "y \<in> set c" "x = ?f y" "0 < quantity x"
    unfolding removeFromCart_def by auto
  have "item_id (?f y) = item_id y"
    by simp
  with x(2) y(2) have ident: "item_id y = ident"
    by simp
  with y(2,3) have left: "1 < quantity y"
    by simp
  from assms(1) y(1) have "find (\<lambda>i. item_id i = item_id y) c = Some y"
    by (simp add: cartInvariant_def find_by_id_distinct)
  with ident have "shownQuantity c ident = quantity y"
    by (simp add: shownQuantity_def)
  with assms(2) left show False
    by simp
qed

lemma removeFromCart_decrement:
  assumes "1 < shownQuantity c ident"
  shows "shownQuantity (removeFromCart ident c) ident = shownQuantity c ident - 1"
  using assms
  by (induction c) (auto simp: shownQuantity_def removeFromCart_def split: if_splits)

lemma runCart_two:
  "runCart [Add koshary, Add falafel] =
     [\<lparr>item_id = ''m1'', item_name = ''koshary'', item_price = 30, quantity = 1\<rparr>,
      \<lparr>item_id = ''m2'', item_name = ''falafel'', item_price = 12, quantity = 1\<rparr>]"
  by (simp add: runCart_def addToCart_def koshary_def falafel_def)

section \<open>Claim about the cart\<close>

text \<open>
  C10: after every sequence of \<^verbatim>\<open>addToCart\<close> and \<^verbatim>\<open>removeFromCart\<close> from the empty cart,
  every item of the cart has a positive quantity and no two items share an id. Adding an
  item whose id is in the cart keeps the entries and raises that item's quantity by one;
  removing from an item with one unit left drops the entry, and with more units left
  lowers its quantity by one.
\<close>

theorem cart_invariant:
  "cartInvariant (runCart ops)
   \<and> (menu_id item \<in> item_id ` set c
      \<longrightarrow> map item_id (addToCart item c) = map item_id c
          \<and> shownQuantity (addToCart item c) (menu_id item) = shownQuantity c (menu_id item) + 1)
   \<and> (cartInvariant c \<and> shownQuantity c ident = 1
      \<longrightarrow> ident \<notin> item_id ` set (removeFromCart ident c))
   \<and> (1 < shownQuantity c ident
      \<longrightarrow> shownQuantity (removeFromCart ident c) ident = shownQuantity c ident - 1)"
  using cartInvariant_runCart [of ops] addToCart_existing_ids [of item c]
    addToCart_existing_quantity [of item c] removeFromCart_last_unit [of c ident]
    removeFromCart_decrement [of c ident]
  by simp


theorem cart_invariant_witness:
  "cartInvariant (runCart examplePresses)
   \<and> menu_id koshary \<in> item_id ` set (runCart [Add koshary, Add falafel])
   \<and> shownQuantity (addToCart koshary (runCart [Add koshary, Add falafel])) ''m1'' = 2
   \<and> cartInvariant (runCart [Add koshary, Add falafel])
   \<and> shownQuantity (runCart [Add koshary, Add falafel]) ''m2'' = 1
   \<and> ''m2'' \<notin> item_id ` set (removeFromCart ''m2'' (runCart [Add koshary, Add falafel]))
   \<and> shownQuantity
         (removeFromCart ''m1'' (addToCart koshary (runCart [Add koshary, Add falafel]))) ''m1'' = 1"
proof -
  let ?c = "runCart [Add koshary, Add falafel]"
  have inv: "cartInvariant ?c"
    by (simp add: runCart_two cartInvariant_def)
  have mem: "menu_id koshary \<in> item_id ` set ?c"
    unfolding runCart_two by (simp add: koshary_def)
  have one: "shownQuantity ?c ''m1'' = 1" "shownQuantity ?c ''m2'' = 1"
    by (simp_all add: runCart_two shownQuantity_def)
  have id: "menu_id koshary = ''m1''"
    by (simp add: koshary_def)
  have two: "shownQuantity (addToCart koshary ?c) ''m1'' = 2"
    using cart_invariant [where item = koshary and c = ?c] mem one(1) id by simp
  have gone: "''m2'' \<notin> item_id ` set (removeFromCart ''m2'' ?c)"
    using cart_invariant [where c = ?c and ident = "''m2''"] inv one(2) by simp
  have lowered: "shownQuantity (removeFromCart ''m1'' (addToCart koshary ?c)) ''m1'' = 1"
    using cart_invariant [where c = "addToCart koshary ?c" and ident = "''m1''"] two by simp
  have "cartInvariant (runCart examplePresses)"
    using cart_invariant [where ops = examplePresses] by simp
  with inv mem one(2) two gone lowered show ?thesis
    by simp
qed

section \<open>The handlers\<close>

lemma handleAcceptOffer_written:
  assumes "activeOrder st = Some a" and "db (order_id a) = Some d"
  shows "handleAcceptOffer offer now st db
           = (Written, db(order_id a \<mapsto> acceptFields offer now d))"
  using assms by (simp add: handleAcceptOffer_def updateDoc_def)

lemma handleAcceptOffer_rejected:
  assumes "activeOrder st = Some a" and "db (order_id a) = None"
  shows "handleAcceptOffer offer now st db = (WriteFailed, db)"
  using assms by (simp add: handleAcceptOffer_def updateDoc_def)

lemma acceptFields_twice:
  "acceptFields offer2 t2 (acceptFields offer1 t1 d) = acceptFields offer2 t2 d"
  by (simp add: acceptFields_def)

section \<open>Claims about accepting an offer\<close>

text \<open>
  C3: accepting an offer on an order that is waiting for offers goes through and stores
  the order with status \<open>ACCEPTED\<close>, the driver's id, name, phone and photo of that offer
  (a missing or empty photo as \<^verbatim>\<open>null\<close>), \<open>acceptedAt\<close> set to the time of the call and the
  price set to the offer's price; nothing is computed from the former price. The other
  fields of the order and the other orders stay as they were.
\<close>

theorem accept_offer_transition:
  assumes "activeOrder st = Some a"
    and "db (order_id a) = Some d"
    and "status d = WAITING_FOR_OFFERS"
  shows "\<exists>db'. handleAcceptOffer offer now st db = (Written, db')
           \<and> db' (order_id a) =
               Some (d\<lparr>status := ACCEPTED,
                        driverId := Some (offer_driverId offer),
                        driverName := Some (offer_driverName offer),
                        driverPhone := Some (offer_driverPhone offer),
                        driverPhoto := orNull (offer_driverPhoto offer),
                        acceptedAt := Some now,
                        price := offer_price offer\<rparr>)
           \<and> (\<forall>k. k \<noteq> order_id a \<longrightarrow> db' k = db k)"
  using assms(1,2)
    handleAcceptOffer_written [where st = st and a = a and db = db and d = d and offer = offer and now = now]
  by (simp add: acceptFields_def)

theorem accept_offer_transition_witness:
  "activeOrder waitingDashboard = Some exampleOrder
   \<and> exampleOrders (order_id exampleOrder) = Some exampleOrder
   \<and> status exampleOrder = WAITING_FOR_OFFERS
   \<and> fst (handleAcceptOffer offerB 1000 waitingDashboard exampleOrders) = Written
   \<and> snd (handleAcceptOffer offerB 1000 waitingDashboard exampleOrders) ''o1'' =
       Some \<lparr>order_id = ''o1'', customerId = ''c1'', status = ACCEPTED, price = 50,
             driverId = Some ''d2'', driverName = Some ''Bassem'', driverPhone = Some ''0111'',
             driverPhoto = Some ''b.png'', acceptedAt = Some 1000, order_rating = None,
             order_feedback = None, ratedAt = None\<rparr>"
proof -
  have h1: "activeOrder waitingDashboard = Some exampleOrder"
    by (simp add: waitingDashboard_def)
  have h2: "exampleOrders (order_id exampleOrder) = Some exampleOrder"
    by (simp add: exampleOrders_def exampleOrder_def)
  have h3: "status exampleOrder = WAITING_FOR_OFFERS"
    by (simp add: exampleOrder_def)
  from h1 h2 h3
    accept_offer_transition [where st = waitingDashboard and a = exampleOrder
      and db = exampleOrders and d = exampleOrder and offer = offerB and now = 1000]
  obtain db' where db': "handleAcceptOffer offerB 1000 waitingDashboard exampleOrders = (Written, db')"
    and stored: "db' (order_id exampleOrder) =
       Some (exampleOrder\<lparr>status := ACCEPTED,
                        driverId := Some (offer_driverId offerB),
                        driverName := Some (offer_driverName offerB),
                        driverPhone := Some (offer_driverPhone offerB),
                        driverPhoto := orNull (offer_driverPhoto offerB),
                        acceptedAt := Some 1000,
                        price := offer_price offerB\<rparr>)"
    by blast
  from stored have "db' ''o1'' =
       Some \<lparr>order_id = ''o1'', customerId = ''c1'', status = ACCEPTED, price = 50,
             driverId = Some ''d2'', driverName = Some ''Bassem'', driverPhone = Some ''0111'',
             driverPhoto = Some ''b.png'', acceptedAt = Some 1000, order_rating = None,
             order_feedback = None, ratedAt = None\<rparr>"
    by (simp add: exampleOrder_def offerB_def orNull_def)
  with db' h1 h2 h3 show ?thesis
    by simp
qed

text \<open>
  C1, as stated, fails. Two sessions whose snapshot shows the order waiting for offers
  accept different offers; the store applies the first write, then the second. Both calls
  report a write that went through, and the order ends with the driver of the second
  offer. In the same way an acceptance whose snapshot is stale goes through on an order
  that was cancelled in the meantime, and the order is \<open>ACCEPTED\<close> again.
\<close>

theorem accept_offer_race_counterexample:
  "offersShown waitingDashboard
   \<and> map_option status (exampleOrders ''o1'') = Some WAITING_FOR_OFFERS
   \<and> fst (handleAcceptOffer offerA 1000 waitingDashboard exampleOrders) = Written
   \<and> fst (handleAcceptOffer offerB 1001 waitingDashboard
            (snd (handleAcceptOffer offerA 1000 waitingDashboard exampleOrders))) = Written
   \<and> map_option driverId
        (snd (handleAcceptOffer offerB 1001 waitingDashboard
               (snd (handleAcceptOffer offerA 1000 waitingDashboard exampleOrders))) ''o1'')
       = Some (Some ''d2'')
   \<and> fst (handleAcceptOffer offerA 1000 waitingDashboard
            (exampleOrders(''o1'' \<mapsto> exampleOrder\<lparr>status := CANCELLED\<rparr>))) = Written
   \<and> map_option status
        (snd (handleAcceptOffer offerA 1000 waitingDashboard
               (exampleOrders(''o1'' \<mapsto> exampleOrder\<lparr>status := CANCELLED\<rparr>))) ''o1'')
       = Some ACCEPTED"
  by (simp add: offersShown_def waitingDashboard_def exampleOrders_def exampleOrder_def
        handleAcceptOffer_def updateDoc_def acceptFields_def offerA_def offerB_def)

text \<open>
  C1, amended: accepting an offer is one unconditional write to the order document of the
  session's active order; the status is looked at only where the offers are rendered from
  the session's snapshot. On an order document that exists the call goes through whatever
  the stored status is, and stores status \<open>ACCEPTED\<close>, the driver fields, \<open>acceptedAt\<close> and
  the price of its offer. When two acceptances of the same order are applied one after
  the other, both go through and the order holds the fields of the later one. The call
  fails only when the store rejects the write, and then the orders are unchanged.
\<close>

theorem accept_offer_unconditional:
  assumes "activeOrder st1 = Some a1"
    and "activeOrder st2 = Some a2"
    and "order_id a2 = order_id a1"
  shows "(db (order_id a1) = Some d \<longrightarrow>
            handleAcceptOffer offer1 t1 st1 db
              = (Written, db(order_id a1 \<mapsto> acceptFields offer1 t1 d))
            \<and> handleAcceptOffer offer2 t2 st2 (db(order_id a1 \<mapsto> acceptFields offer1 t1 d))
              = (Written, db(order_id a1 \<mapsto> acceptFields offer2 t2 d))
            \<and> status (acceptFields offer2 t2 d) = ACCEPTED
            \<and> driverId (acceptFields offer2 t2 d) = Some (offer_driverId offer2)
            \<and> price (acceptFields offer2 t2 d) = offer_price offer2)
         \<and> (db (order_id a1) = None \<longrightarrow>
            handleAcceptOffer offer1 t1 st1 db = (WriteFailed, db))"
proof -
  have first: "handleAcceptOffer offer1 t1 st1 db
      = (Written, db(order_id a1 \<mapsto> acceptFields offer1 t1 d))"
    if "db (order_id a1) = Some d"
    using assms(1) that
      handleAcceptOffer_written [where st = st1 and a = a1 and db = db and d = d]
    by simp
  have "handleAcceptOffer offer2 t2 st2 (db(order_id a1 \<mapsto> acceptFields offer1 t1 d))
      = (Written, (db(order_id a1 \<mapsto> acceptFields offer1 t1 d))
                    (order_id a2 \<mapsto> acceptFields offer2 t2 (acceptFields offer1 t1 d)))"
    using assms(2,3)
      handleAcceptOffer_written [where st = st2 and a = a2
        and db = "db(order_id a1 \<mapsto> acceptFields offer1 t1 d)"
        and d = "acceptFields offer1 t1 d"]
    by simp
  then have second: "handleAcceptOffer offer2 t2 st2 (db(order_id a1 \<mapsto> acceptFields offer1 t1 d))
      = (Written, db(order_id a1 \<mapsto> acceptFields offer2 t2 d))"
    by (simp add: assms(3) acceptFields_twice)
  have fields: "status (acceptFields offer2 t2 d) = ACCEPTED
      \<and> driverId (acceptFields offer2 t2 d) = Some (offer_driverId offer2)
      \<and> price (acceptFields offer2 t2 d) = offer_price offer2"
    by (simp add: acceptFields_def)
  have missing: "handleAcceptOffer offer1 t1 st1 db = (WriteFailed, db)"
    if "db (order_id a1) = None"
    using assms(1) that handleAcceptOffer_rejected [where st = st1 and a = a1 and db = db]
    by simp
  from first second fields missing show ?thesis
    by blast
qed

theorem accept_offer_unconditional_witness:
  "activeOrder waitingDashboard = Some exampleOrder
   \<and> exampleOrders (order_id exampleOrder) = Some exampleOrder
   \<and> handleAcceptOffer offerA 1000 waitingDashboard exampleOrders
       = (Written, exampleOrders(''o1'' \<mapsto> acceptFields offerA 1000 exampleOrder))
   \<and> handleAcceptOffer offerB 1001 waitingDashboard
        (exampleOrders(''o1'' \<mapsto> acceptFields offerA 1000 exampleOrder))
       = (Written, exampleOrders(''o1'' \<mapsto> acceptFields offerB 1001 exampleOrder))
   \<and> driverId (acceptFields offerB 1001 exampleOrder) = Some ''d2''
   \<and> Map.empty (order_id exampleOrder) = (None :: Order option)
   \<and> handleAcceptOffer offerA 1000 waitingDashboard Map.empty = (WriteFailed, Map.empty)"
proof -
  have h1: "activeOrder waitingDashboard = Some exampleOrder"
    by (simp add: waitingDashboard_def)
  have h2: "exampleOrders (order_id exampleOrder) = Some exampleOrder"
    by (simp add: exampleOrders_def exampleOrder_def)
  have h3: "order_id exampleOrder = ''o1''"
    by (simp add: exampleOrder_def)
  have h4: "offer_driverId offerB = ''d2''"
    by (simp add: offerB_def)
  show ?thesis
    using accept_offer_unconditional [OF h1 h1 refl, where db = exampleOrders
        and d = exampleOrder and ?offer1.0 = offerA and ?t1.0 = 1000 and ?offer2.0 = offerB
        and ?t2.0 = 1001]
      accept_offer_unconditional [OF h1 h1 refl, where db = Map.empty
        and ?offer1.0 = offerA and ?t1.0 = 1000]
      h1 h2 h3 h4
    by simp
qed

section \<open>The rating handler\<close>

lemma handleRateOrder_written:
  assumes "activeOrder st = Some a" and "db (order_id a) = Some d"
  shows "handleRateOrder now st db
           = (Written, st\<lparr>feedback := [], rating := 5, isSubmitting := False\<rparr>,
              db(order_id a \<mapsto> rateFields (rating st) (feedback st) now d))"
  using assms by (simp add: handleRateOrder_def updateDoc_def)

lemma handleRateOrder_rejected:
  assumes "activeOrder st = Some a" and "db (order_id a) = None"
  shows "handleRateOrder now st db = (WriteFailed, st\<lparr>isSubmitting := False\<rparr>, db)"
  using assms by (simp add: handleRateOrder_def updateDoc_def)

lemma rateFields_twice:
  "rateFields r2 f2 t2 (rateFields r1 f1 t1 d) = rateFields r2 f2 t2 d"
  by (simp add: rateFields_def)

lemma trim_good: "trim '' good '' = ''good''"
  by code_simp

lemma trim_late: "trim ''late'' = ''late''"
  by code_simp

lemma trim_no_break_space: "trim [CHR ''o'', CHR ''k'', CHR 0xC2, CHR 0xA0, CHR 0x0A] = ''ok''"
  by code_simp

lemma selectActiveOrder_open:
  assumes "selectActiveOrder orders = Some x"
  shows "status x \<noteq> DELIVERED_RATED \<and> status x \<noteq> CANCELLED"
  using assms by (auto simp: selectActiveOrder_def find_Some_iff)

section \<open>Claims about rating\<close>

text \<open>
  C2, as stated, fails. Two sessions whose snapshot shows the order delivered both show
  the rating form; the first rates 4, the second 1. Both calls report a write that went
  through, and the order ends with the rating and the feedback of the second call.
\<close>

theorem rate_twice_counterexample:
  "ratingFormShown ratingDashboard \<and> ratingFormShown otherRatingDashboard
   \<and> fst (handleRateOrder 2000 ratingDashboard deliveredOrders) = Written
   \<and> map_option order_rating
        (snd (snd (handleRateOrder 2000 ratingDashboard deliveredOrders)) ''o1'')
       = Some (Some 4)
   \<and> fst (handleRateOrder 2001 otherRatingDashboard
            (snd (snd (handleRateOrder 2000 ratingDashboard deliveredOrders)))) = Written
   \<and> map_option order_rating
        (snd (snd (handleRateOrder 2001 otherRatingDashboard
                     (snd (snd (handleRateOrder 2000 ratingDashboard deliveredOrders))))) ''o1'')
       = Some (Some 1)
   \<and> map_option order_feedback
        (snd (snd (handleRateOrder 2001 otherRatingDashboard
                     (snd (snd (handleRateOrder 2000 ratingDashboard deliveredOrders))))) ''o1'')
       = Some (Some ''late'')"
  by (simp add: ratingFormShown_def ratingDashboard_def otherRatingDashboard_def
        deliveredOrders_def deliveredOrder_def initialDashboard_def handleRateOrder_def
        updateDoc_def rateFields_def trim_good trim_late)

text \<open>
  C2, amended: rating is one unconditional write to the order document of the session's
  active order; the status is looked at only where the rating form is rendered from the
  session's snapshot, which shows it while the snapshot is \<open>DELIVERED\<close>. On an order
  document that exists the call goes through and stores status \<open>DELIVERED_RATED\<close>, the
  rating, the trimmed feedback and \<open>ratedAt\<close>. A second call on the same order goes through
  as well and replaces rating, feedback and \<open>ratedAt\<close>, so they reflect the later call. The
  call fails only when the store rejects the write, and then the orders are unchanged.
\<close>

theorem rate_unconditional:
  assumes "activeOrder st1 = Some a1"
    and "activeOrder st2 = Some a2"
    and "order_id a2 = order_id a1"
  shows "(db (order_id a1) = Some d \<longrightarrow>
            handleRateOrder t1 st1 db
              = (Written, st1\<lparr>feedback := [], rating := 5, isSubmitting := False\<rparr>,
                 db(order_id a1 \<mapsto> rateFields (rating st1) (feedback st1) t1 d))
            \<and> handleRateOrder t2 st2
                 (db(order_id a1 \<mapsto> rateFields (rating st1) (feedback st1) t1 d))
              = (Written, st2\<lparr>feedback := [], rating := 5, isSubmitting := False\<rparr>,
                 db(order_id a1 \<mapsto> rateFields (rating st2) (feedback st2) t2 d))
            \<and> rateFields (rating st2) (feedback st2) t2 d
              = d\<lparr>status := DELIVERED_RATED, order_rating := Some (rating st2),
                   order_feedback := Some (trim (feedback st2)), ratedAt := Some t2\<rparr>)
         \<and> (db (order_id a1) = None \<longrightarrow>
            handleRateOrder t1 st1 db = (WriteFailed, st1\<lparr>isSubmitting := False\<rparr>, db))"
proof -
  have first: "handleRateOrder t1 st1 db
      = (Written, st1\<lparr>feedback := [], rating := 5, isSubmitting := False\<rparr>,
         db(order_id a1 \<mapsto> rateFields (rating st1) (feedback st1) t1 d))"
    if "db (order_id a1) = Some d"
    using assms(1) that
      handleRateOrder_written [where st = st1 and a = a1 and db = db and d = d]
    by simp
  have second: "handleRateOrder t2 st2
        (db(order_id a1 \<mapsto> rateFields (rating st1) (feedback st1) t1 d))
      = (Written, st2\<lparr>feedback := [], rating := 5, isSubmitting := False\<rparr>,
         db(order_id a1 \<mapsto> rateFields (rating st2) (feedback st2) t2 d))"
    using assms(2,3)
      handleRateOrder_written [where st = st2 and a = a2
        and db = "db(order_id a1 \<mapsto> rateFields (rating st1) (feedback st1) t1 d)"
        and d = "rateFields (rating st1) (feedback st1) t1 d" and now = t2]
    by (simp add: rateFields_twice)
  have fields: "rateFields (rating st2) (feedback st2) t2 d
      = d\<lparr>status := DELIVERED_RATED, order_rating := Some (rating st2),
           order_feedback := Some (trim (feedback st2)), ratedAt := Some t2\<rparr>"
    by (simp add: rateFields_def)
  have missing: "handleRateOrder t1 st1 db = (WriteFailed, st1\<lparr>isSubmitting := False\<rparr>, db)"
    if "db (order_id a1) = None"
    using assms(1) that handleRateOrder_rejected [where st = st1 and a = a1 and db = db]
    by simp
  from first second fields missing show ?thesis
    by blast
qed

theorem rate_unconditional_witness:
  "activeOrder ratingDashboard = Some deliveredOrder
   \<and> activeOrder otherRatingDashboard = Some deliveredOrder
   \<and> deliveredOrders (order_id deliveredOrder) = Some deliveredOrder
   \<and> fst (handleRateOrder 2000 ratingDashboard deliveredOrders) = Written
   \<and> handleRateOrder 2001 otherRatingDashboard
        (deliveredOrders(''o1'' \<mapsto> rateFields 4 '' good '' 2000 deliveredOrder))
       = (Written, otherRatingDashboard\<lparr>feedback := [], rating := 5, isSubmitting := False\<rparr>,
          deliveredOrders(''o1'' \<mapsto> rateFields 1 ''late'' 2001 deliveredOrder))
   \<and> order_feedback (rateFields 4 '' good '' 2000 deliveredOrder) = Some ''good''
   \<and> fst (handleRateOrder 2000 ratingDashboard Map.empty) = WriteFailed"
proof -
  have h1: "activeOrder ratingDashboard = Some deliveredOrder"
    by (simp add: ratingDashboard_def)
  have h2: "activeOrder otherRatingDashboard = Some deliveredOrder"
    by (simp add: otherRatingDashboard_def)
  have h3: "deliveredOrders (order_id deliveredOrder) = Some deliveredOrder"
    by (simp add: deliveredOrders_def deliveredOrder_def)
  have h4: "order_id deliveredOrder = ''o1''"
    by (simp add: deliveredOrder_def)
  have h5: "rating ratingDashboard = 4 \<and> feedback ratingDashboard = '' good ''
      \<and> rating otherRatingDashboard = 1 \<and> feedback otherRatingDashboard = ''late''"
    by (simp add: ratingDashboard_def otherRatingDashboard_def)
  have h6: "trim '' good '' = ''good''"
    by (rule trim_good)
  show ?thesis
    using rate_unconditional [OF h1 h2 refl, where db = deliveredOrders and d = deliveredOrder
        and ?t1.0 = 2000 and ?t2.0 = 2001]
      rate_unconditional [OF h1 h2 refl, where db = Map.empty and ?t1.0 = 2000]
      h1 h2 h3 h4 h5 h6
    by (simp add: rateFields_def)
qed

section \<open>The distance the estimate reads\<close>

lemma getEstimatedPrice_isCalculatingDist:
  "getEstimatedPrice cfg (st\<lparr>isCalculatingDist := b\<rparr>) = getEstimatedPrice cfg st"
  by (cases "dropoffVillage st") (simp_all add: getEstimatedPrice_def Let_def cong: if_cong)

lemma distanceEffect_Rejected_distance:
  assumes "dropoffVillage st = Some dv"
  shows "actualRoadDist (distanceEffect Rejected st)
           = (if samePickupId (pickupVillage st) dv then 0 else actualRoadDist st)"
  using assms
  by (cases "pickupVillage st") (simp_all add: distanceEffect_def settleDistance_def samePickupId_def)

lemma distanceEffect_Rejected_price:
  assumes "actualRoadDist st = 0"
  shows "getEstimatedPrice cfg (distanceEffect Rejected st) = getEstimatedPrice cfg st"
proof -
  have "st\<lparr>actualRoadDist := actualRoadDist st\<rparr> = st"
    by simp
  with assms have same: "st\<lparr>actualRoadDist := 0\<rparr> = st"
    by simp
  show ?thesis
    by (cases "pickupVillage st"; cases "dropoffVillage st")
       (simp_all add: distanceEffect_def settleDistance_def same
          getEstimatedPrice_isCalculatingDist)
qed

section \<open>Claim about a negative or missing distance\<close>

text \<open>
  C9, as stated, fails. With a distance of -10 the estimate of a taxi order across
  villages is the minimum price 15, and that of a food order across villages is -30: a
  number, not an error. For a pharmacy order whose distance request was rejected the
  distance is still the initial 0 and the estimate is 20, the price at distance 0.
\<close>

theorem estimate_distance_counterexample:
  "getEstimatedPrice examplePricing (taxiDashboard\<lparr>actualRoadDist := - 10\<rparr>) = 15
   \<and> getEstimatedPrice examplePricing (foodDashboard\<lparr>actualRoadDist := - 10\<rparr>) = - 30
   \<and> actualRoadDist (distanceEffect Rejected pharmacyDashboard) = 0
   \<and> getEstimatedPrice examplePricing (distanceEffect Rejected pharmacyDashboard) = 20
   \<and> getEstimatedPrice examplePricing (pharmacyDashboard\<lparr>actualRoadDist := 0\<rparr>) = 20"
  by (simp add: getEstimatedPrice_def examplePricing_def taxiDashboard_def foodDashboard_def
        pharmacyDashboard_def initialDashboard_def villageA_def villageB_def samePickupId_def
        vehicleMultiplier_def distanceEffect_def settleDistance_def)

text \<open>
  C9, amended: the estimate checks nothing about the distance and signals no error; it
  returns a number for every input. Whatever the sign of the distance, it enters the
  formula of the order's branch as it is. A distance request that was rejected leaves the
  distance of the dashboard as it was (0 where pickup and dropoff have the same id), so with
  the initial distance 0 the estimate is the price at distance 0.
\<close>

theorem estimate_without_distance_check:
  assumes "dropoffVillage st = Some dv"
  shows "(selectedCategory st = TAXI \<and> \<not> samePickupId (pickupVillage st) dv \<longrightarrow>
            getEstimatedPrice cfg (st\<lparr>actualRoadDist := d\<rparr>)
              = max (minPrice cfg)
                  (of_int (round ((basePrice cfg + d * pricePerKm cfg)
                                    * vehicleMultiplier cfg (selectedVehicle st)))))
         \<and> (selectedCategory st = PHARMACY \<longrightarrow>
            getEstimatedPrice cfg (st\<lparr>actualRoadDist := d\<rparr>)
              = max (deliveryBasePrice cfg)
                  (of_int (round ((deliveryBasePrice cfg + d * pricePerKm cfg)
                                    * vehicleMultiplier cfg (selectedVehicle st)))))
         \<and> (selectedCategory st = FOOD \<and> \<not> samePickupId (pickupVillage st) dv \<longrightarrow>
            getEstimatedPrice cfg (st\<lparr>actualRoadDist := d\<rparr>)
              = of_int (round (d * foodOutsidePricePerKm cfg)))
         \<and> actualRoadDist (distanceEffect Rejected st)
              = (if samePickupId (pickupVillage st) dv then 0 else actualRoadDist st)
         \<and> (actualRoadDist st = 0 \<longrightarrow>
            getEstimatedPrice cfg (distanceEffect Rejected st)
              = getEstimatedPrice cfg (st\<lparr>actualRoadDist := 0\<rparr>))"
proof -
  let ?st = "st\<lparr>actualRoadDist := d\<rparr>"
  have dv: "dropoffVillage ?st = Some dv"
    using assms by simp
  have taxi: "getEstimatedPrice cfg ?st
      = max (minPrice cfg)
          (of_int (round ((basePrice cfg + d * pricePerKm cfg)
                            * vehicleMultiplier cfg (selectedVehicle st))))"
    if "selectedCategory st = TAXI \<and> \<not> samePickupId (pickupVillage st) dv"
    using that getEstimatedPrice_taxi_cross [OF dv, of cfg] by simp
  have pharmacy: "getEstimatedPrice cfg ?st
      = max (deliveryBasePrice cfg)
          (of_int (round ((deliveryBasePrice cfg + d * pricePerKm cfg)
                            * vehicleMultiplier cfg (selectedVehicle st))))"
    if "selectedCategory st = PHARMACY"
    using that getEstimatedPrice_pharmacy [OF dv, of cfg] by simp
  have food: "getEstimatedPrice cfg ?st = of_int (round (d * foodOutsidePricePerKm cfg))"
    if "selectedCategory st = FOOD \<and> \<not> samePickupId (pickupVillage st) dv"
    using that getEstimatedPrice_food_cross [OF dv, of cfg] by simp
  have rejected: "getEstimatedPrice cfg (distanceEffect Rejected st)
      = getEstimatedPrice cfg (st\<lparr>actualRoadDist := 0\<rparr>)"
    if zero: "actualRoadDist st = 0"
  proof -
    have "st\<lparr>actualRoadDist := actualRoadDist st\<rparr> = st"
      by simp
    with zero have same: "st\<lparr>actualRoadDist := 0\<rparr> = st"
      by simp
    show ?thesis
      unfolding same by (rule distanceEffect_Rejected_price [OF zero])
  qed
  from taxi pharmacy food rejected distanceEffect_Rejected_distance [OF assms]
  show ?thesis
    by blast
qed

theorem estimate_without_distance_check_witness:
  "dropoffVillage pharmacyDashboard = Some villageB
   \<and> selectedCategory pharmacyDashboard = PHARMACY
   \<and> actualRoadDist pharmacyDashboard = 0
   \<and> getEstimatedPrice examplePricing (pharmacyDashboard\<lparr>actualRoadDist := - 10\<rparr>) = 20
   \<and> getEstimatedPrice examplePricing (distanceEffect Rejected pharmacyDashboard)
       = getEstimatedPrice examplePricing (pharmacyDashboard\<lparr>actualRoadDist := 0\<rparr>)
   \<and> getEstimatedPrice examplePricing
        (foodDashboard\<lparr>actualRoadDist := - 10\<rparr>) = - 30
   \<and> getEstimatedPrice examplePricing
        (taxiDashboard\<lparr>actualRoadDist := - 10\<rparr>) = 15"
proof -
  have p1: "dropoffVillage pharmacyDashboard = Some villageB"
    by (simp add: pharmacyDashboard_def)
  have p2: "selectedCategory pharmacyDashboard = PHARMACY"
    by (simp add: pharmacyDashboard_def)
  have p3: "actualRoadDist pharmacyDashboard = 0"
    by (simp add: pharmacyDashboard_def initialDashboard_def)
  have p4: "selectedVehicle pharmacyDashboard = MOTORCYCLE"
    by (simp add: pharmacyDashboard_def initialDashboard_def)
  have f1: "dropoffVillage foodDashboard = Some villageB"
    by (simp add: foodDashboard_def)
  have f2: "selectedCategory foodDashboard = FOOD
      \<and> \<not> samePickupId (pickupVillage foodDashboard) villageB"
    by (simp add: foodDashboard_def initialDashboard_def samePickupId_def)
  have t1: "dropoffVillage taxiDashboard = Some villageB"
    by (simp add: taxiDashboard_def)
  have t2: "selectedCategory taxiDashboard = TAXI
      \<and> \<not> samePickupId (pickupVillage taxiDashboard) villageB
      \<and> selectedVehicle taxiDashboard = MOTORCYCLE"
    by (simp add: taxiDashboard_def initialDashboard_def samePickupId_def villageA_def villageB_def)
  have "getEstimatedPrice examplePricing (pharmacyDashboard\<lparr>actualRoadDist := - 10\<rparr>) = 20"
    using estimate_without_distance_check [OF p1, of examplePricing "- 10"] p2 p4
    by (simp add: examplePricing_def vehicleMultiplier_def)
  moreover have "getEstimatedPrice examplePricing (distanceEffect Rejected pharmacyDashboard)
       = getEstimatedPrice examplePricing (pharmacyDashboard\<lparr>actualRoadDist := 0\<rparr>)"
    using estimate_without_distance_check [OF p1, of examplePricing 0] p3
    by simp
  moreover have "getEstimatedPrice examplePricing (foodDashboard\<lparr>actualRoadDist := - 10\<rparr>) = - 30"
    using estimate_without_distance_check [OF f1, of examplePricing "- 10"] f2
    by (simp add: examplePricing_def)
  moreover have "getEstimatedPrice examplePricing (taxiDashboard\<lparr>actualRoadDist := - 10\<rparr>) = 15"
    using estimate_without_distance_check [OF t1, of examplePricing "- 10"] t2
    by (simp add: examplePricing_def vehicleMultiplier_def)
  ultimately show ?thesis
    using p1 p2 p3 by blast
qed

end
